theory Spec2Isabelle
  imports Main
begin

section \<open>JavaScript values, thrown values and the calls the wrapper makes\<close>

text \<open>
  The values that main.js handles. Objects and functions are references: two of them are
  the same value exactly when they are the same reference, which is what the source's
  \<^verbatim>\<open>!==\<close> compares. Numbers are the integer ones (the floating-point
  values, NaN among them, are left out of the model). \<open>Fn r\<close> is a callable object
  (\<^verbatim>\<open>typeof\<close> gives \<^verbatim>\<open>'function'\<close>) and \<open>Obj r\<close> is any other
  object; what either one inherits from is a matter of its prototype chain, not of this tag.
\<close>

type_synonym ref = nat

datatype jsval =
    Undefined
  | Null
  | Bool bool
  | Num int
  | Str string
  | Obj ref
  | Fn ref

text \<open>
  What a call of the wrapper can throw: an Error object that main.js builds itself with
  \<^verbatim>\<open>new Error(message)\<close>, or a value thrown by the code it calls or by the
  language (a TypeError).
\<close>

datatype exn =
    Error string
  | Thrown jsval

text \<open>
  The calls the wrapper attempts on code outside main.js, in the order it attempts them:
  \<open>Call f args\<close> is \<^verbatim>\<open>f(...args)\<close> and \<open>MethodCall v m args\<close> is
  \<^verbatim>\<open>v.m(...args)\<close>.
\<close>

datatype event =
    Call jsval "jsval list"
  | MethodCall jsval string "jsval list"

text \<open>
  The code outside main.js, over a state \<open>'w\<close> that main.js never looks into: whether
  the prototype chain of an object holds \<^verbatim>\<open>Object.prototype\<close> or
  \<^verbatim>\<open>Function.prototype\<close>, the TypeError that the language throws for a value
  used where it cannot be, util.inspect, the read of a property of a value that has
  properties, and the awaited call of a callable value or of a method. A test, a read or a
  call gives \<open>Inl v\<close> when it throws (or its promise rejects with) \<open>v\<close>, and
  \<open>Inr v\<close> when it returns (or its promise resolves to) \<open>v\<close>; a call also gives
  the state it leaves, a test and a read leave the state as it is. A call whose promise
  never settles is not described: every awaited call has an outcome.
\<close>

record 'w env =
  inherits_Object :: "'w \<Rightarrow> ref \<Rightarrow> jsval + bool"
  inherits_Function :: "'w \<Rightarrow> ref \<Rightarrow> jsval + bool"
  type_error :: "'w \<Rightarrow> jsval \<Rightarrow> jsval"
  inspect :: "'w \<Rightarrow> jsval \<Rightarrow> string"
  get_property :: "jsval \<Rightarrow> string \<Rightarrow> 'w \<Rightarrow> jsval + jsval"
  call_function :: "jsval \<Rightarrow> jsval list \<Rightarrow> 'w \<Rightarrow> (jsval + jsval) \<times> 'w"
  call_method :: "jsval \<Rightarrow> string \<Rightarrow> jsval list \<Rightarrow> 'w \<Rightarrow> (jsval + jsval) \<times> 'w"

type_synonym 'w outcome = "(exn + jsval) \<times> 'w \<times> event list"

section \<open>The language operations main.js uses\<close>

fun typeof :: "jsval \<Rightarrow> string" where
  "typeof Undefined = ''undefined''"
| "typeof Null = ''object''"
| "typeof (Bool b) = ''boolean''"
| "typeof (Num n) = ''number''"
| "typeof (Str s) = ''string''"
| "typeof (Obj r) = ''object''"
| "typeof (Fn r) = ''function''"

fun truthy :: "jsval \<Rightarrow> bool" where
  "truthy Undefined = False"
| "truthy Null = False"
| "truthy (Bool b) = b"
| "truthy (Num n) = (n \<noteq> 0)"
| "truthy (Str s) = (s \<noteq> [])"
| "truthy (Obj r) = True"
| "truthy (Fn r) = True"

text \<open>
  \<^verbatim>\<open>v instanceof Object\<close> and \<^verbatim>\<open>v instanceof Function\<close>: false of a
  primitive value, a walk along the prototype chain for an object.
\<close>

fun instanceof_Object :: "'w env \<Rightarrow> 'w \<Rightarrow> jsval \<Rightarrow> jsval + bool" where
  "instanceof_Object E w (Obj r) = inherits_Object E w r"
| "instanceof_Object E w (Fn r) = inherits_Object E w r"
| "instanceof_Object E w v = Inr False"

fun instanceof_Function :: "'w env \<Rightarrow> 'w \<Rightarrow> jsval \<Rightarrow> jsval + bool" where
  "instanceof_Function E w (Obj r) = inherits_Function E w r"
| "instanceof_Function E w (Fn r) = inherits_Function E w r"
| "instanceof_Function E w v = Inr False"

text \<open>\<^verbatim>\<open>v.name\<close>: a TypeError when \<open>v\<close> is undefined or null.\<close>

fun read_property :: "'w env \<Rightarrow> jsval \<Rightarrow> string \<Rightarrow> 'w \<Rightarrow> jsval + jsval" where
  "read_property E Undefined name w = Inl (type_error E w Undefined)"
| "read_property E Null name w = Inl (type_error E w Null)"
| "read_property E v name w = get_property E v name w"

text \<open>\<^verbatim>\<open>await v.m(...args)\<close>: a TypeError when \<open>v\<close> is undefined or null.\<close>

fun invoke_method ::
  "'w env \<Rightarrow> jsval \<Rightarrow> string \<Rightarrow> jsval list \<Rightarrow> 'w \<Rightarrow> (jsval + jsval) \<times> 'w" where
  "invoke_method E Undefined m args w = (Inl (type_error E w Undefined), w)"
| "invoke_method E Null m args w = (Inl (type_error E w Null), w)"
| "invoke_method E v m args w = call_method E v m args w"

text \<open>\<^verbatim>\<open>await f(...args)\<close>: a TypeError when \<open>f\<close> is not callable.\<close>

fun invoke_function ::
  "'w env \<Rightarrow> jsval \<Rightarrow> jsval list \<Rightarrow> 'w \<Rightarrow> (jsval + jsval) \<times> 'w" where
  "invoke_function E (Fn r) args w = call_function E (Fn r) args w"
| "invoke_function E f args w = (Inl (type_error E w f), w)"

text \<open>
  \<^verbatim>\<open>params.find(p)\<close>: the first element that satisfies p, undefined when none does;
  when p throws on an element, so does the search.
\<close>

fun find_js :: "(jsval \<Rightarrow> jsval + bool) \<Rightarrow> jsval list \<Rightarrow> jsval + jsval" where
  "find_js p [] = Inr Undefined"
| "find_js p (x # xs) =
     (case p x of
        Inl e \<Rightarrow> Inl e
      | Inr b \<Rightarrow> if b then Inr x else find_js p xs)"

text \<open>\<^verbatim>\<open>params[i]\<close>: undefined out of range.\<close>

definition at :: "jsval list \<Rightarrow> nat \<Rightarrow> jsval" where
  "at params i = (if i < length params then params ! i else Undefined)"

section \<open>main.js\<close>

text \<open>\<^verbatim>\<open>const pretty = v => require('util').inspect(v, false, 2, false)\<close>\<close>

definition pretty :: "'w env \<Rightarrow> 'w \<Rightarrow> jsval \<Rightarrow> string" where
  "pretty E w v = inspect E w v"

text \<open>
  \<^verbatim>\<open>(v instanceof Object) && (v.constructor.name === 'Sequelize')\<close>: the second
  operand is evaluated only when the first is true, and reads two properties in turn.
\<close>

definition isSequelize :: "'w env \<Rightarrow> 'w \<Rightarrow> jsval \<Rightarrow> jsval + bool" where
  "isSequelize E w v =
     (case instanceof_Object E w v of
        Inl e \<Rightarrow> Inl e
      | Inr b \<Rightarrow>
          if \<not> b then Inr False
          else (case read_property E v ''constructor'' w of
                  Inl e \<Rightarrow> Inl e
                | Inr c \<Rightarrow>
                    (case read_property E c ''name'' w of
                       Inl e \<Rightarrow> Inl e
                     | Inr n \<Rightarrow> Inr (n = Str ''Sequelize''))))"

definition isTransaction :: "'w env \<Rightarrow> 'w \<Rightarrow> jsval \<Rightarrow> jsval + bool" where
  "isTransaction E w v =
     (case instanceof_Object E w v of
        Inl e \<Rightarrow> Inl e
      | Inr b \<Rightarrow>
          if \<not> b then Inr False
          else (case read_property E v ''constructor'' w of
                  Inl e \<Rightarrow> Inl e
                | Inr c \<Rightarrow>
                    (case read_property E c ''name'' w of
                       Inl e \<Rightarrow> Inl e
                     | Inr n \<Rightarrow> Inr (n = Str ''Transaction''))))"

text \<open>The body of the \<^verbatim>\<open>try\<close>: \<open>Inl e\<close> is what the \<^verbatim>\<open>catch\<close> receives.\<close>

definition try_block ::
  "'w env \<Rightarrow> jsval \<Rightarrow> jsval \<Rightarrow> jsval \<Rightarrow> jsval \<Rightarrow> jsval list \<Rightarrow> 'w
    \<Rightarrow> (jsval + jsval) \<times> 'w \<times> event list" where
  "try_block E handler db handlerTransaction transaction handlerParams w =
     (let args = db # handlerTransaction # handlerParams in
      case invoke_function E handler args w of
        (Inl e, w1) \<Rightarrow> (Inl e, w1, [Call handler args])
      | (Inr handlerRes, w1) \<Rightarrow>
          if \<not> truthy transaction then
            (case read_property E handlerTransaction ''finished'' w1 of
               Inl e \<Rightarrow> (Inl e, w1, [Call handler args])
             | Inr finished \<Rightarrow>
                 if \<not> truthy finished then
                   (case invoke_method E handlerTransaction ''commit'' [] w1 of
                      (Inl e, w2) \<Rightarrow>
                        (Inl e, w2, [Call handler args, MethodCall handlerTransaction ''commit'' []])
                    | (Inr u, w2) \<Rightarrow>
                        (Inr handlerRes, w2,
                         [Call handler args, MethodCall handlerTransaction ''commit'' []]))
                 else (Inr handlerRes, w1, [Call handler args]))
          else (Inr handlerRes, w1, [Call handler args]))"

text \<open>The body of the \<^verbatim>\<open>catch (e)\<close>.\<close>

definition catch_block ::
  "'w env \<Rightarrow> jsval \<Rightarrow> jsval \<Rightarrow> jsval \<Rightarrow> jsval \<Rightarrow> jsval \<Rightarrow> 'w \<Rightarrow> 'w outcome" where
  "catch_block E errorHandler db handlerTransaction transaction e w =
     (if truthy errorHandler then
        (let args = [e, db, handlerTransaction, transaction] in
         case invoke_function E errorHandler args w of
           (Inl e', w1) \<Rightarrow> (Inl (Thrown e'), w1, [Call errorHandler args])
         | (Inr v, w1) \<Rightarrow> (Inr v, w1, [Call errorHandler args]))
      else if \<not> truthy transaction then
        (case invoke_method E handlerTransaction ''rollback'' [] w of
           (Inl e', w1) \<Rightarrow> (Inl (Thrown e'), w1, [MethodCall handlerTransaction ''rollback'' []])
         | (Inr u, w1) \<Rightarrow> (Inl (Thrown e), w1, [MethodCall handlerTransaction ''rollback'' []]))
      else (Inl (Thrown e), w, []))"

text \<open>\<^verbatim>\<open>transaction || await db.transaction()\<close>\<close>

definition working_transaction ::
  "'w env \<Rightarrow> jsval \<Rightarrow> jsval \<Rightarrow> 'w \<Rightarrow> (jsval + jsval) \<times> 'w \<times> event list" where
  "working_transaction E db transaction w =
     (if truthy transaction then (Inr transaction, w, [])
      else (case invoke_method E db ''transaction'' [] w of
              (r, w1) \<Rightarrow> (r, w1, [MethodCall db ''transaction'' []])))"

text \<open>
  The async function that the generator returns, called with \<open>params\<close> in state
  \<open>w\<close>. Whatever is thrown in it rejects the promise it returns.
\<close>

definition transactionalMethod ::
  "'w env \<Rightarrow> jsval \<Rightarrow> jsval \<Rightarrow> jsval list \<Rightarrow> 'w \<Rightarrow> 'w outcome" where
  "transactionalMethod E handler errorHandler params w =
     (case find_js (isSequelize E w) params of
        Inl e \<Rightarrow> (Inl (Thrown e), w, [])
      | Inr db \<Rightarrow>
     (case find_js (isTransaction E w) params of
        Inl e \<Rightarrow> (Inl (Thrown e), w, [])
      | Inr transaction \<Rightarrow>
         if \<not> truthy db \<or> at params 0 \<noteq> db then
           (Inl (Error (''Expected the first parameter to be a Sequelize instance, but instead received: (''
                        @ typeof (at params 0) @ '') '' @ pretty E w (at params 0))), w, [])
         else
           (case working_transaction E db transaction w of
              (Inl e, w0, tr0) \<Rightarrow> (Inl (Thrown e), w0, tr0)
            | (Inr handlerTransaction, w0, tr0) \<Rightarrow>
                (let handlerParams = filter (\<lambda>p. p \<noteq> db \<and> p \<noteq> handlerTransaction) params in
                 case try_block E handler db handlerTransaction transaction handlerParams w0 of
                   (Inr handlerRes, w1, tr1) \<Rightarrow> (Inr handlerRes, w1, tr0 @ tr1)
                 | (Inl e, w1, tr1) \<Rightarrow>
                     (case catch_block E errorHandler db handlerTransaction transaction e w1 of
                        (r, w2, tr2) \<Rightarrow> (r, w2, tr0 @ tr1 @ tr2))))))"


section \<open>A small database for the examples\<close>

text \<open>
  One database handle, one transaction that a caller holds, one transaction that the
  handle creates, a handler, a handler that commits the transaction it is given, an error
  handler, and three values of other kinds: a data object whose \<open>constructor\<close>
  property is null, an object made with \<^verbatim>\<open>Object.create(Function.prototype)\<close>
  (an instance of Function that cannot be called), and a function of another realm
  (callable, and no instance of this realm's Function or Object). The state lists the
  finished transactions with the way each was finished; a \<open>scenario\<close> says which
  operations succeed.
\<close>

record scenario =
  creation_ok :: bool
  handler_ok :: bool
  commit_ok :: bool
  rollback_ok :: bool
  errorHandler_ok :: bool

abbreviation the_db :: jsval where "the_db \<equiv> Obj 0"
abbreviation given_tx :: jsval where "given_tx \<equiv> Obj 1"
abbreviation fresh_tx :: jsval where "fresh_tx \<equiv> Obj 2"
abbreviation the_handler :: jsval where "the_handler \<equiv> Fn 3"
abbreviation the_errorHandler :: jsval where "the_errorHandler \<equiv> Fn 4"
abbreviation committing_handler :: jsval where "committing_handler \<equiv> Fn 5"
abbreviation null_constructor_data :: jsval where "null_constructor_data \<equiv> Obj 6"
abbreviation class_Sequelize :: jsval where "class_Sequelize \<equiv> Fn 10"
abbreviation class_Transaction :: jsval where "class_Transaction \<equiv> Fn 11"
abbreviation class_Object :: jsval where "class_Object \<equiv> Fn 12"
abbreviation class_Function :: jsval where "class_Function \<equiv> Fn 13"
abbreviation a_TypeError :: jsval where "a_TypeError \<equiv> Obj 99"

type_synonym example_state = "(ref \<times> string) list"

definition example_inherits_Object :: "ref \<Rightarrow> jsval + bool" where
  "example_inherits_Object r = Inr (r \<noteq> 8)"

definition example_inherits_Function :: "ref \<Rightarrow> jsval + bool" where
  "example_inherits_Function r = Inr (r \<in> set [3, 4, 5, 7, 10, 11, 12, 13])"

definition example_get_property :: "jsval \<Rightarrow> string \<Rightarrow> example_state \<Rightarrow> jsval + jsval" where
  "example_get_property v name w =
     (case v of
        Obj r \<Rightarrow>
          (if name = ''constructor'' then
             Inr (if r = 6 then Null
                  else if r = 0 then class_Sequelize
                  else if r = 1 \<or> r = 2 then class_Transaction
                  else if r = 7 then class_Function
                  else class_Object)
           else if name = ''finished'' then
             Inr (case map_of w r of None \<Rightarrow> Undefined | Some how \<Rightarrow> Str how)
           else Inr Undefined)
      | Fn r \<Rightarrow>
          (if name = ''constructor'' then Inr class_Function
           else if name = ''name'' then
             Inr (Str (if r = 10 then ''Sequelize''
                       else if r = 11 then ''Transaction''
                       else if r = 12 then ''Object''
                       else if r = 13 then ''Function''
                       else []))
           else Inr Undefined)
      | _ \<Rightarrow> Inr Undefined)"

definition example_call_function ::
  "scenario \<Rightarrow> jsval \<Rightarrow> jsval list \<Rightarrow> example_state \<Rightarrow> (jsval + jsval) \<times> example_state" where
  "example_call_function s f args w =
     (if f = the_handler then
        (if handler_ok s then (Inr (Str ''ok''), w) else (Inl (Str ''handler failed''), w))
      else if f = the_errorHandler then
        (if errorHandler_ok s then (Inr (Str ''recovered''), w)
         else (Inl (Str ''error handler failed''), w))
      else if f = committing_handler then
        (case at args 1 of
           Obj r \<Rightarrow> (Inr (Str ''ok''), (r, ''commit'') # w)
         | _ \<Rightarrow> (Inl a_TypeError, w))
      else (Inr Undefined, w))"

definition example_call_method ::
  "scenario \<Rightarrow> jsval \<Rightarrow> string \<Rightarrow> jsval list \<Rightarrow> example_state
    \<Rightarrow> (jsval + jsval) \<times> example_state" where
  "example_call_method s v m args w =
     (case v of
        Obj r \<Rightarrow>
          (if v = the_db \<and> m = ''transaction'' then
             (if creation_ok s then (Inr fresh_tx, w) else (Inl (Str ''creation failed''), w))
           else if (v = given_tx \<or> v = fresh_tx) \<and> m = ''commit'' then
             (if commit_ok s then (Inr Undefined, (r, ''commit'') # w)
              else (Inl (Str ''commit failed''), w))
           else if (v = given_tx \<or> v = fresh_tx) \<and> m = ''rollback'' then
             (if rollback_ok s then (Inr Undefined, (r, ''rollback'') # w)
              else (Inl (Str ''rollback failed''), w))
           else (Inl a_TypeError, w))
      | _ \<Rightarrow> (Inl a_TypeError, w))"

definition example_env :: "scenario \<Rightarrow> example_state env" where
  "example_env s =
     \<lparr> inherits_Object = (\<lambda>w. example_inherits_Object),
       inherits_Function = (\<lambda>w. example_inherits_Function),
       type_error = (\<lambda>w v. a_TypeError),
       inspect = (\<lambda>w v. ''[a value]''),
       get_property = example_get_property,
       call_function = example_call_function s,
       call_method = example_call_method s \<rparr>"

definition all_ok :: scenario where
  "all_ok = \<lparr> creation_ok = True, handler_ok = True, commit_ok = True, rollback_ok = True,
              errorHandler_ok = True \<rparr>"

section \<open>Facts about the language operations\<close>

lemma isSequelize_truthy: "isSequelize E w v = Inr True \<Longrightarrow> truthy v"
  by (cases v) (simp_all add: isSequelize_def)

lemma isTransaction_truthy: "isTransaction E w v = Inr True \<Longrightarrow> truthy v"
  by (cases v) (simp_all add: isTransaction_def)

lemma find_js_none: "\<forall>p\<in>set params. P p = Inr False \<Longrightarrow> find_js P params = Inr Undefined"
  by (induction params) simp_all

lemma find_js_first:
  "\<forall>p\<in>set pre. P p = Inr False \<Longrightarrow> P t = Inr True \<Longrightarrow> find_js P (pre @ t # post) = Inr t"
  by (induction pre) simp_all

lemma find_js_throws:
  "\<forall>p\<in>set pre. P p = Inr False \<Longrightarrow> P x = Inl e \<Longrightarrow> find_js P (pre @ x # post) = Inl e"
  by (induction pre) simp_all

lemma find_js_found:
  "find_js P params = Inr v \<Longrightarrow> v \<noteq> Undefined \<Longrightarrow> P v = Inr True"
  by (induction params) (auto split: sum.splits if_splits)

lemma first_is_db:
  assumes "isSequelize E w (at params 0) = Inr True"
  shows "find_js (isSequelize E w) params = Inr (at params 0)"
proof (cases params)
  case Nil
  with assms show ?thesis by (simp add: at_def isSequelize_def)
next
  case (Cons x xs)
  with assms show ?thesis by (simp add: at_def)
qed

lemma invalid_call:
  assumes "isSequelize E w (at params 0) = Inr False"
    and "find_js (isSequelize E w) params = Inr db"
    and "find_js (isTransaction E w) params = Inr transaction"
  shows "transactionalMethod E handler errorHandler params w =
     (Inl (Error (''Expected the first parameter to be a Sequelize instance, but instead received: (''
                  @ typeof (at params 0) @ '') '' @ pretty E w (at params 0))), w, [])"
proof -
  have "\<not> truthy db \<or> at params 0 \<noteq> db"
  proof (cases "db = Undefined")
    case True
    then show ?thesis by simp
  next
    case False
    with assms(2) have "isSequelize E w db = Inr True" by (rule find_js_found)
    with assms(1) show ?thesis by auto
  qed
  then show ?thesis
    using assms(2,3) by (auto simp: transactionalMethod_def)
qed

lemma valid_call:
  assumes "isSequelize E w (at params 0) = Inr True"
    and "find_js (isTransaction E w) params = Inr transaction"
  shows "transactionalMethod E handler errorHandler params w =
     (case working_transaction E (at params 0) transaction w of
        (Inl e, w0, tr0) \<Rightarrow> (Inl (Thrown e), w0, tr0)
      | (Inr handlerTransaction, w0, tr0) \<Rightarrow>
          (case try_block E handler (at params 0) handlerTransaction transaction
                  (filter (\<lambda>p. p \<noteq> at params 0 \<and> p \<noteq> handlerTransaction) params) w0 of
             (Inr handlerRes, w1, tr1) \<Rightarrow> (Inr handlerRes, w1, tr0 @ tr1)
           | (Inl e, w1, tr1) \<Rightarrow>
               (case catch_block E errorHandler (at params 0) handlerTransaction transaction e w1 of
                  (r, w2, tr2) \<Rightarrow> (r, w2, tr0 @ tr1 @ tr2))))"
  using isSequelize_truthy [OF assms(1)] first_is_db [OF assms(1)] assms(2)
  by (simp add: transactionalMethod_def Let_def split: prod.splits sum.splits)

lemma example_selectors:
  "inherits_Object (example_env s) = (\<lambda>w. example_inherits_Object)"
  "inherits_Function (example_env s) = (\<lambda>w. example_inherits_Function)"
  "type_error (example_env s) = (\<lambda>w v. a_TypeError)"
  "get_property (example_env s) = example_get_property"
  "call_function (example_env s) = example_call_function s"
  "call_method (example_env s) = example_call_method s"
  "inspect (example_env s) = (\<lambda>w v. ''[a value]'')"
  by (simp_all add: example_env_def)

lemmas example_simps =
  isSequelize_def isTransaction_def example_selectors example_inherits_Object_def
  example_inherits_Function_def example_get_property_def
  example_call_function_def example_call_method_def all_ok_def at_def

section \<open>A call with no transaction argument\<close>

text \<open>
  C2. No error handler, no transaction among the arguments, and the database handle, the
  read of the finished flag and the commit do not fail. If the handler returns
  \<open>res\<close>, the wrapper has asked the database handle for one transaction, has called
  the handler once, has committed that transaction once (not at all when its finished
  flag is already set after the handler), and the call resolves with \<open>res\<close>.
\<close>

theorem local_transaction_committed:
  assumes "at params 0 = db" and "isSequelize E w db = Inr True"
    and "\<forall>p\<in>set params. isTransaction E w p = Inr False"
    and "invoke_method E db ''transaction'' [] w = (Inr tx, w0)"
    and "invoke_function E handler (db # tx # filter (\<lambda>p. p \<noteq> db \<and> p \<noteq> tx) params) w0 = (Inr res, w1)"
    and "read_property E tx ''finished'' w1 = Inr fin"
    and "\<not> truthy fin \<Longrightarrow> invoke_method E tx ''commit'' [] w1 = (Inr u, w2)"
  shows "transactionalMethod E handler Undefined params w =
     (if truthy fin then
        (Inr res, w1,
         [MethodCall db ''transaction'' [],
          Call handler (db # tx # filter (\<lambda>p. p \<noteq> db \<and> p \<noteq> tx) params)])
      else
        (Inr res, w2,
         [MethodCall db ''transaction'' [],
          Call handler (db # tx # filter (\<lambda>p. p \<noteq> db \<and> p \<noteq> tx) params),
          MethodCall tx ''commit'' []]))"
proof -
  have first: "isSequelize E w (at params 0) = Inr True" using assms(1,2) by simp
  have "find_js (isTransaction E w) params = Inr Undefined"
    using assms(3) by (rule find_js_none)
  note unfold = valid_call [OF first this]
  show ?thesis
    using assms(1,4,5,6,7)
    by (simp add: unfold working_transaction_def try_block_def)
qed

theorem local_transaction_committed_witness:
  "transactionalMethod (example_env all_ok) the_handler Undefined [the_db, Num 42] [] =
     (Inr (Str ''ok''), [(2, ''commit'')],
      [MethodCall the_db ''transaction'' [], Call the_handler [the_db, fresh_tx, Num 42],
       MethodCall fresh_tx ''commit'' []]) \<and>
   transactionalMethod (example_env all_ok) committing_handler Undefined [the_db, Num 42] [] =
     (Inr (Str ''ok''), [(2, ''commit'')],
      [MethodCall the_db ''transaction'' [], Call committing_handler [the_db, fresh_tx, Num 42]])"
proof -
  let ?E = "example_env all_ok" and ?ps = "[the_db, Num 42]"
  have a: "at ?ps 0 = the_db" by (simp add: at_def)
  have b: "isSequelize ?E [] the_db = Inr True" by (simp add: example_simps)
  have c: "\<forall>p\<in>set ?ps. isTransaction ?E [] p = Inr False" by (simp add: example_simps)
  have d: "invoke_method ?E the_db ''transaction'' [] [] = (Inr fresh_tx, [])"
    by (simp add: example_simps)
  have e1: "invoke_function ?E the_handler
              (the_db # fresh_tx # filter (\<lambda>p. p \<noteq> the_db \<and> p \<noteq> fresh_tx) ?ps) []
            = (Inr (Str ''ok''), [])"
    by (simp add: example_simps)
  have f1: "read_property ?E fresh_tx ''finished'' [] = Inr Undefined"
    by (simp add: example_simps)
  have g1: "invoke_method ?E fresh_tx ''commit'' [] [] = (Inr Undefined, [(2, ''commit'')])"
    by (simp add: example_simps)
  have e2: "invoke_function ?E committing_handler
              (the_db # fresh_tx # filter (\<lambda>p. p \<noteq> the_db \<and> p \<noteq> fresh_tx) ?ps) []
            = (Inr (Str ''ok''), [(2, ''commit'')])"
    by (simp add: example_simps)
  have f2: "read_property ?E fresh_tx ''finished'' [(2, ''commit'')] = Inr (Str ''commit'')"
    by (simp add: example_simps)
  show ?thesis
    using local_transaction_committed [OF a b c d e1 f1 g1]
      local_transaction_committed [OF a b c d e2 f2]
    by simp
qed

text \<open>
  C3. No error handler, no transaction among the arguments, and the database handle and
  the rollback do not fail. If the handler throws \<open>e\<close>, the wrapper rolls the
  transaction it created back once and the call rejects with \<open>e\<close> itself.
\<close>

theorem local_transaction_rolled_back:
  assumes "at params 0 = db" and "isSequelize E w db = Inr True"
    and "\<forall>p\<in>set params. isTransaction E w p = Inr False"
    and "invoke_method E db ''transaction'' [] w = (Inr tx, w0)"
    and "invoke_function E handler (db # tx # filter (\<lambda>p. p \<noteq> db \<and> p \<noteq> tx) params) w0 = (Inl e, w1)"
    and "invoke_method E tx ''rollback'' [] w1 = (Inr u, w2)"
  shows "transactionalMethod E handler Undefined params w =
     (Inl (Thrown e), w2,
      [MethodCall db ''transaction'' [],
       Call handler (db # tx # filter (\<lambda>p. p \<noteq> db \<and> p \<noteq> tx) params),
       MethodCall tx ''rollback'' []])"
proof -
  have first: "isSequelize E w (at params 0) = Inr True" using assms(1,2) by simp
  have "find_js (isTransaction E w) params = Inr Undefined"
    using assms(3) by (rule find_js_none)
  note unfold = valid_call [OF first this]
  show ?thesis
    using assms(1,4,5,6)
    by (simp add: unfold working_transaction_def try_block_def catch_block_def)
qed

theorem local_transaction_rolled_back_witness:
  "transactionalMethod (example_env (all_ok\<lparr>handler_ok := False\<rparr>)) the_handler Undefined
     [the_db, Num 42] [] =
     (Inl (Thrown (Str ''handler failed'')), [(2, ''rollback'')],
      [MethodCall the_db ''transaction'' [], Call the_handler [the_db, fresh_tx, Num 42],
       MethodCall fresh_tx ''rollback'' []])"
proof -
  let ?E = "example_env (all_ok\<lparr>handler_ok := False\<rparr>)" and ?ps = "[the_db, Num 42]"
  have a: "at ?ps 0 = the_db" by (simp add: at_def)
  have b: "isSequelize ?E [] the_db = Inr True" by (simp add: example_simps)
  have c: "\<forall>p\<in>set ?ps. isTransaction ?E [] p = Inr False" by (simp add: example_simps)
  have d: "invoke_method ?E the_db ''transaction'' [] [] = (Inr fresh_tx, [])"
    by (simp add: example_simps)
  have e: "invoke_function ?E the_handler
              (the_db # fresh_tx # filter (\<lambda>p. p \<noteq> the_db \<and> p \<noteq> fresh_tx) ?ps) []
            = (Inl (Str ''handler failed''), [])"
    by (simp add: example_simps)
  have f: "invoke_method ?E fresh_tx ''rollback'' [] [] = (Inr Undefined, [(2, ''rollback'')])"
    by (simp add: example_simps)
  show ?thesis
    using local_transaction_rolled_back [OF a b c d e f] by simp
qed

text \<open>
  C10. As in C3, but the rollback throws \<open>r\<close>: the call rejects with \<open>r\<close>, and
  the handler's error \<open>e\<close> is given to nobody (there is no call after the rollback).
\<close>

theorem rollback_failure_replaces_error:
  assumes "at params 0 = db" and "isSequelize E w db = Inr True"
    and "\<forall>p\<in>set params. isTransaction E w p = Inr False"
    and "invoke_method E db ''transaction'' [] w = (Inr tx, w0)"
    and "invoke_function E handler (db # tx # filter (\<lambda>p. p \<noteq> db \<and> p \<noteq> tx) params) w0 = (Inl e, w1)"
    and "invoke_method E tx ''rollback'' [] w1 = (Inl r, w2)"
  shows "transactionalMethod E handler Undefined params w =
     (Inl (Thrown r), w2,
      [MethodCall db ''transaction'' [],
       Call handler (db # tx # filter (\<lambda>p. p \<noteq> db \<and> p \<noteq> tx) params),
       MethodCall tx ''rollback'' []])"
proof -
  have first: "isSequelize E w (at params 0) = Inr True" using assms(1,2) by simp
  have "find_js (isTransaction E w) params = Inr Undefined"
    using assms(3) by (rule find_js_none)
  note unfold = valid_call [OF first this]
  show ?thesis
    using assms(1,4,5,6)
    by (simp add: unfold working_transaction_def try_block_def catch_block_def)
qed

theorem rollback_failure_replaces_error_witness:
  "transactionalMethod (example_env (all_ok\<lparr>handler_ok := False, rollback_ok := False\<rparr>))
     the_handler Undefined [the_db, Num 42] [] =
     (Inl (Thrown (Str ''rollback failed'')), [],
      [MethodCall the_db ''transaction'' [], Call the_handler [the_db, fresh_tx, Num 42],
       MethodCall fresh_tx ''rollback'' []])"
proof -
  let ?E = "example_env (all_ok\<lparr>handler_ok := False, rollback_ok := False\<rparr>)"
  let ?ps = "[the_db, Num 42]"
  have a: "at ?ps 0 = the_db" by (simp add: at_def)
  have b: "isSequelize ?E [] the_db = Inr True" by (simp add: example_simps)
  have c: "\<forall>p\<in>set ?ps. isTransaction ?E [] p = Inr False" by (simp add: example_simps)
  have d: "invoke_method ?E the_db ''transaction'' [] [] = (Inr fresh_tx, [])"
    by (simp add: example_simps)
  have e: "invoke_function ?E the_handler
              (the_db # fresh_tx # filter (\<lambda>p. p \<noteq> the_db \<and> p \<noteq> fresh_tx) ?ps) []
            = (Inl (Str ''handler failed''), [])"
    by (simp add: example_simps)
  have f: "invoke_method ?E fresh_tx ''rollback'' [] [] = (Inl (Str ''rollback failed''), [])"
    by (simp add: example_simps)
  show ?thesis
    using rollback_failure_replaces_error [OF a b c d e f] by simp
qed

text \<open>
  C8. No transaction among the arguments and the database handle fails to create one,
  throwing \<open>e\<close>: the call rejects with \<open>e\<close>, and the request for a transaction is
  the only call the wrapper has made, whether an error handler was given or not.
\<close>

theorem creation_failure_propagates:
  assumes "at params 0 = db" and "isSequelize E w db = Inr True"
    and "\<forall>p\<in>set params. isTransaction E w p = Inr False"
    and "invoke_method E db ''transaction'' [] w = (Inl e, w0)"
  shows "transactionalMethod E handler errorHandler params w =
     (Inl (Thrown e), w0, [MethodCall db ''transaction'' []])"
proof -
  have first: "isSequelize E w (at params 0) = Inr True" using assms(1,2) by simp
  have "find_js (isTransaction E w) params = Inr Undefined"
    using assms(3) by (rule find_js_none)
  note unfold = valid_call [OF first this]
  show ?thesis
    using assms(1,4) by (simp add: unfold working_transaction_def)
qed

theorem creation_failure_propagates_witness:
  "transactionalMethod (example_env (all_ok\<lparr>creation_ok := False\<rparr>)) the_handler
     the_errorHandler [the_db, Num 42] [] =
     (Inl (Thrown (Str ''creation failed'')), [], [MethodCall the_db ''transaction'' []])"
proof -
  let ?E = "example_env (all_ok\<lparr>creation_ok := False\<rparr>)" and ?ps = "[the_db, Num 42]"
  have a: "at ?ps 0 = the_db" by (simp add: at_def)
  have b: "isSequelize ?E [] the_db = Inr True" by (simp add: example_simps)
  have c: "\<forall>p\<in>set ?ps. isTransaction ?E [] p = Inr False" by (simp add: example_simps)
  have d: "invoke_method ?E the_db ''transaction'' [] [] = (Inl (Str ''creation failed''), [])"
    by (simp add: example_simps)
  show ?thesis
    using creation_failure_propagates [OF a b c d, of the_handler the_errorHandler] by simp
qed

section \<open>A failing commit\<close>

text \<open>
  C1 says that a failing commit of the wrapper's own transaction reaches the caller
  without passing through the error handler and without a rollback. The commit is awaited
  inside the \<^verbatim>\<open>try\<close>, so the \<^verbatim>\<open>catch\<close> receives its failure. In the
  example, with the commit failing: with no error handler the wrapper calls rollback on
  the transaction before it rejects, and with an error handler the error handler is called
  with the commit's error and the call resolves with what it returns.
\<close>

theorem commit_failure_uncaught_counterexample:
  "transactionalMethod (example_env (all_ok\<lparr>commit_ok := False\<rparr>)) the_handler Undefined
     [the_db] [] =
     (Inl (Thrown (Str ''commit failed'')), [(2, ''rollback'')],
      [MethodCall the_db ''transaction'' [], Call the_handler [the_db, fresh_tx],
       MethodCall fresh_tx ''commit'' [], MethodCall fresh_tx ''rollback'' []]) \<and>
   transactionalMethod (example_env (all_ok\<lparr>commit_ok := False\<rparr>)) the_handler
     the_errorHandler [the_db] [] =
     (Inr (Str ''recovered''), [],
      [MethodCall the_db ''transaction'' [], Call the_handler [the_db, fresh_tx],
       MethodCall fresh_tx ''commit'' [],
       Call the_errorHandler [Str ''commit failed'', the_db, fresh_tx, Undefined]])"
  by (simp add: transactionalMethod_def working_transaction_def try_block_def catch_block_def
      Let_def example_simps)

text \<open>
  C1, amended. The handler returns, the transaction is the wrapper's own and is not
  finished, and its commit throws \<open>c\<close>. Then the failure is handled as a failure of
  the handler is. With an error handler: the error handler is called with
  \<open>(c, db, tx, undefined)\<close>, its outcome is the outcome of the call, and the wrapper
  makes no rollback. With no error handler: the wrapper calls rollback on the transaction
  once; the call rejects with \<open>c\<close> when the rollback succeeds, and with the rollback's
  error when it fails.
\<close>

theorem commit_failure_is_caught:
  assumes "at params 0 = db" and "isSequelize E w db = Inr True"
    and "\<forall>p\<in>set params. isTransaction E w p = Inr False"
    and "invoke_method E db ''transaction'' [] w = (Inr tx, w0)"
    and "invoke_function E handler (db # tx # filter (\<lambda>p. p \<noteq> db \<and> p \<noteq> tx) params) w0 = (Inr res, w1)"
    and "read_property E tx ''finished'' w1 = Inr fin" and "\<not> truthy fin"
    and "invoke_method E tx ''commit'' [] w1 = (Inl c, w2)"
  shows "transactionalMethod E handler errorHandler params w =
     (if truthy errorHandler then
        (case invoke_function E errorHandler [c, db, tx, Undefined] w2 of
           (Inl e', w3) \<Rightarrow>
             (Inl (Thrown e'), w3,
              [MethodCall db ''transaction'' [],
               Call handler (db # tx # filter (\<lambda>p. p \<noteq> db \<and> p \<noteq> tx) params),
               MethodCall tx ''commit'' [],
               Call errorHandler [c, db, tx, Undefined]])
         | (Inr v, w3) \<Rightarrow>
             (Inr v, w3,
              [MethodCall db ''transaction'' [],
               Call handler (db # tx # filter (\<lambda>p. p \<noteq> db \<and> p \<noteq> tx) params),
               MethodCall tx ''commit'' [],
               Call errorHandler [c, db, tx, Undefined]]))
      else
        (case invoke_method E tx ''rollback'' [] w2 of
           (Inl r, w3) \<Rightarrow>
             (Inl (Thrown r), w3,
              [MethodCall db ''transaction'' [],
               Call handler (db # tx # filter (\<lambda>p. p \<noteq> db \<and> p \<noteq> tx) params),
               MethodCall tx ''commit'' [],
               MethodCall tx ''rollback'' []])
         | (Inr u, w3) \<Rightarrow>
             (Inl (Thrown c), w3,
              [MethodCall db ''transaction'' [],
               Call handler (db # tx # filter (\<lambda>p. p \<noteq> db \<and> p \<noteq> tx) params),
               MethodCall tx ''commit'' [],
               MethodCall tx ''rollback'' []])))"
proof -
  have first: "isSequelize E w (at params 0) = Inr True" using assms(1,2) by simp
  have "find_js (isTransaction E w) params = Inr Undefined"
    using assms(3) by (rule find_js_none)
  note unfold = valid_call [OF first this]
  show ?thesis
    using assms(1,4,5,6,7,8)
    by (simp add: unfold working_transaction_def try_block_def catch_block_def
        split: prod.splits sum.splits)
qed

theorem commit_failure_is_caught_witness:
  "transactionalMethod (example_env (all_ok\<lparr>commit_ok := False, rollback_ok := False\<rparr>))
     the_handler Undefined [the_db, Num 42] [] =
     (Inl (Thrown (Str ''rollback failed'')), [],
      [MethodCall the_db ''transaction'' [], Call the_handler [the_db, fresh_tx, Num 42],
       MethodCall fresh_tx ''commit'' [], MethodCall fresh_tx ''rollback'' []]) \<and>
   transactionalMethod (example_env (all_ok\<lparr>commit_ok := False, rollback_ok := False\<rparr>))
     the_handler the_errorHandler [the_db, Num 42] [] =
     (Inr (Str ''recovered''), [],
      [MethodCall the_db ''transaction'' [], Call the_handler [the_db, fresh_tx, Num 42],
       MethodCall fresh_tx ''commit'' [],
       Call the_errorHandler [Str ''commit failed'', the_db, fresh_tx, Undefined]])"
proof -
  let ?E = "example_env (all_ok\<lparr>commit_ok := False, rollback_ok := False\<rparr>)"
  let ?ps = "[the_db, Num 42]"
  have a: "at ?ps 0 = the_db" by (simp add: at_def)
  have b: "isSequelize ?E [] the_db = Inr True" by (simp add: example_simps)
  have c: "\<forall>p\<in>set ?ps. isTransaction ?E [] p = Inr False" by (simp add: example_simps)
  have d: "invoke_method ?E the_db ''transaction'' [] [] = (Inr fresh_tx, [])"
    by (simp add: example_simps)
  have e: "invoke_function ?E the_handler
              (the_db # fresh_tx # filter (\<lambda>p. p \<noteq> the_db \<and> p \<noteq> fresh_tx) ?ps) []
            = (Inr (Str ''ok''), [])"
    by (simp add: example_simps)
  have f: "read_property ?E fresh_tx ''finished'' [] = Inr Undefined"
    by (simp add: example_simps)
  have g: "\<not> truthy Undefined" by simp
  have h: "invoke_method ?E fresh_tx ''commit'' [] [] = (Inl (Str ''commit failed''), [])"
    by (simp add: example_simps)
  show ?thesis
    using commit_failure_is_caught [OF a b c d e f g h, of Undefined]
      commit_failure_is_caught [OF a b c d e f g h, of the_errorHandler]
    by (simp add: example_simps)
qed

section \<open>A failing handler and an error handler\<close>

text \<open>
  C4. The wrapped method has an error handler (a value that the generator's
  \<^verbatim>\<open>instanceof Function\<close> test accepted), the working transaction \<open>wtx\<close> is
  the one found among the arguments or one that the database handle created, and the
  handler throws \<open>e\<close>. Then the error handler is called with
  \<open>(e, db, wtx, transaction)\<close>, where \<open>transaction\<close> is the one found among the
  arguments (undefined when there is none); the call resolves with the value the error
  handler returns, or rejects with what the error handler throws; and the calls the
  wrapper has made are the creation of the transaction (when none was given), the handler
  and the error handler: no rollback.
\<close>

theorem error_handler_decides:
  assumes "at params 0 = db" and "isSequelize E w db = Inr True"
    and "instanceof_Function E wc errorHandler = Inr True"
    and "find_js (isTransaction E w) params = Inr transaction"
    and "working_transaction E db transaction w = (Inr wtx, w0, tr0)"
    and "invoke_function E handler (db # wtx # filter (\<lambda>p. p \<noteq> db \<and> p \<noteq> wtx) params) w0 = (Inl e, w1)"
  shows "transactionalMethod E handler errorHandler params w =
     (case invoke_function E errorHandler [e, db, wtx, transaction] w1 of
        (Inl e', w2) \<Rightarrow>
          (Inl (Thrown e'), w2,
           tr0 @ [Call handler (db # wtx # filter (\<lambda>p. p \<noteq> db \<and> p \<noteq> wtx) params),
                  Call errorHandler [e, db, wtx, transaction]])
      | (Inr v, w2) \<Rightarrow>
          (Inr v, w2,
           tr0 @ [Call handler (db # wtx # filter (\<lambda>p. p \<noteq> db \<and> p \<noteq> wtx) params),
                  Call errorHandler [e, db, wtx, transaction]]))
     \<and> tr0 = (if truthy transaction then [] else [MethodCall db ''transaction'' []])"
proof -
  have first: "isSequelize E w (at params 0) = Inr True" using assms(1,2) by simp
  note unfold = valid_call [OF first assms(4)]
  have eh: "truthy errorHandler" using assms(3) by (cases errorHandler) simp_all
  have tr: "tr0 = (if truthy transaction then [] else [MethodCall db ''transaction'' []])"
    using assms(5) by (auto simp: working_transaction_def split: if_splits prod.splits)
  have "transactionalMethod E handler errorHandler params w =
     (case invoke_function E errorHandler [e, db, wtx, transaction] w1 of
        (Inl e', w2) \<Rightarrow>
          (Inl (Thrown e'), w2,
           tr0 @ [Call handler (db # wtx # filter (\<lambda>p. p \<noteq> db \<and> p \<noteq> wtx) params),
                  Call errorHandler [e, db, wtx, transaction]])
      | (Inr v, w2) \<Rightarrow>
          (Inr v, w2,
           tr0 @ [Call handler (db # wtx # filter (\<lambda>p. p \<noteq> db \<and> p \<noteq> wtx) params),
                  Call errorHandler [e, db, wtx, transaction]]))"
    using assms(1,5,6) eh
    by (simp add: unfold try_block_def catch_block_def split: prod.splits sum.splits)
  then show ?thesis using tr by (rule conjI)
qed

theorem error_handler_decides_witness:
  "transactionalMethod (example_env (all_ok\<lparr>handler_ok := False\<rparr>)) the_handler
     the_errorHandler [the_db, Num 42, given_tx] [] =
     (Inr (Str ''recovered''), [],
      [Call the_handler [the_db, given_tx, Num 42],
       Call the_errorHandler [Str ''handler failed'', the_db, given_tx, given_tx]]) \<and>
   transactionalMethod (example_env (all_ok\<lparr>handler_ok := False, errorHandler_ok := False\<rparr>))
     the_handler the_errorHandler [the_db, Num 42] [] =
     (Inl (Thrown (Str ''error handler failed'')), [],
      [MethodCall the_db ''transaction'' [], Call the_handler [the_db, fresh_tx, Num 42],
       Call the_errorHandler [Str ''handler failed'', the_db, fresh_tx, Undefined]])"
proof -
  let ?E1 = "example_env (all_ok\<lparr>handler_ok := False\<rparr>)"
  let ?E2 = "example_env (all_ok\<lparr>handler_ok := False, errorHandler_ok := False\<rparr>)"
  let ?ps1 = "[the_db, Num 42, given_tx]" and ?ps2 = "[the_db, Num 42]"
  have a1: "at ?ps1 0 = the_db" and a2: "at ?ps2 0 = the_db" by (simp_all add: at_def)
  have b1: "isSequelize ?E1 [] the_db = Inr True" and b2: "isSequelize ?E2 [] the_db = Inr True"
    by (simp_all add: example_simps)
  have c1: "instanceof_Function ?E1 [] the_errorHandler = Inr True"
    and c2: "instanceof_Function ?E2 [] the_errorHandler = Inr True"
    by (simp_all add: example_simps)
  have d1: "find_js (isTransaction ?E1 []) ?ps1 = Inr given_tx"
    and d2: "find_js (isTransaction ?E2 []) ?ps2 = Inr Undefined"
    by (simp_all add: example_simps)
  have e1: "working_transaction ?E1 the_db given_tx [] = (Inr given_tx, [], [])"
    and e2: "working_transaction ?E2 the_db Undefined [] =
               (Inr fresh_tx, [], [MethodCall the_db ''transaction'' []])"
    by (simp_all add: working_transaction_def example_simps)
  have f1: "invoke_function ?E1 the_handler
              (the_db # given_tx # filter (\<lambda>p. p \<noteq> the_db \<and> p \<noteq> given_tx) ?ps1) []
            = (Inl (Str ''handler failed''), [])"
    and f2: "invoke_function ?E2 the_handler
              (the_db # fresh_tx # filter (\<lambda>p. p \<noteq> the_db \<and> p \<noteq> fresh_tx) ?ps2) []
            = (Inl (Str ''handler failed''), [])"
    by (simp_all add: example_simps)
  show ?thesis
    using error_handler_decides [OF a1 b1 c1 d1 e1 f1] error_handler_decides [OF a2 b2 c2 d2 e2 f2]
    by (simp add: example_simps)
qed

section \<open>A call with a transaction of the caller\<close>

text \<open>
  C5. The arguments hold a transaction \<open>t\<close>, found by the wrapper's search. If the
  handler returns, the call resolves with its value and the handler is the only call the
  wrapper has made (no commit), whatever the error handler. If the handler throws \<open>e\<close>
  and there is no error handler, the call rejects with \<open>e\<close> and the handler is again
  the only call (no rollback). The state is the one the handler left.
\<close>

theorem supplied_transaction_untouched:
  assumes "at params 0 = db" and "isSequelize E w db = Inr True"
    and "params = pre @ t # post"
    and "\<forall>p\<in>set pre. isTransaction E w p = Inr False"
    and "isTransaction E w t = Inr True"
  shows "(invoke_function E handler (db # t # filter (\<lambda>p. p \<noteq> db \<and> p \<noteq> t) params) w
            = (Inr res, w1) \<longrightarrow>
          transactionalMethod E handler errorHandler params w =
            (Inr res, w1, [Call handler (db # t # filter (\<lambda>p. p \<noteq> db \<and> p \<noteq> t) params)]))
       \<and> (invoke_function E handler (db # t # filter (\<lambda>p. p \<noteq> db \<and> p \<noteq> t) params) w
            = (Inl e, w1) \<longrightarrow>
          transactionalMethod E handler Undefined params w =
            (Inl (Thrown e), w1, [Call handler (db # t # filter (\<lambda>p. p \<noteq> db \<and> p \<noteq> t) params)]))"
proof -
  have first: "isSequelize E w (at params 0) = Inr True" using assms(1,2) by simp
  have found: "find_js (isTransaction E w) params = Inr t"
    using assms(3,4,5) by (simp add: find_js_first)
  note unfold = valid_call [OF first found]
  have "truthy t" using assms(5) by (rule isTransaction_truthy)
  then show ?thesis
    using assms(1)
    by (simp add: unfold working_transaction_def try_block_def catch_block_def)
qed

theorem supplied_transaction_untouched_witness:
  "transactionalMethod (example_env all_ok) the_handler the_errorHandler
     [the_db, Num 42, given_tx] [] =
     (Inr (Str ''ok''), [], [Call the_handler [the_db, given_tx, Num 42]]) \<and>
   transactionalMethod (example_env (all_ok\<lparr>handler_ok := False\<rparr>)) the_handler Undefined
     [the_db, Num 42, given_tx] [] =
     (Inl (Thrown (Str ''handler failed'')), [], [Call the_handler [the_db, given_tx, Num 42]])"
proof -
  let ?E1 = "example_env all_ok" and ?E2 = "example_env (all_ok\<lparr>handler_ok := False\<rparr>)"
  let ?ps = "[the_db, Num 42, given_tx]"
  have a: "at ?ps 0 = the_db" by (simp add: at_def)
  have b1: "isSequelize ?E1 [] the_db = Inr True" and b2: "isSequelize ?E2 [] the_db = Inr True"
    by (simp_all add: example_simps)
  have c: "?ps = [the_db, Num 42] @ given_tx # []" by simp
  have d1: "\<forall>p\<in>set [the_db, Num 42]. isTransaction ?E1 [] p = Inr False"
    and d2: "\<forall>p\<in>set [the_db, Num 42]. isTransaction ?E2 [] p = Inr False"
    by (simp_all add: example_simps)
  have e1: "isTransaction ?E1 [] given_tx = Inr True"
    and e2: "isTransaction ?E2 [] given_tx = Inr True"
    by (simp_all add: example_simps)
  show ?thesis
    using supplied_transaction_untouched [OF a b1 c d1 e1, of the_handler "Str ''ok''" "[]"
        the_errorHandler]
      supplied_transaction_untouched [OF a b2 c d2 e2, of the_handler _ _ "Str ''handler failed''"]
    by (simp add: example_simps)
qed

section \<open>The search for the database handle and the transaction\<close>

text \<open>
  When both searches run to their end, the rest is as the specification says. A first
  argument that is no Sequelize instance gives the Error of the argument check (lemma
  \<open>invalid_call\<close> above), and a transaction among the arguments, at whatever position
  after the database handle, is the working transaction: the handler is called with the
  database handle, that transaction, and the arguments that are neither of the two, in
  their order, and the outcome of the call is decided by the outcome of that handler call.
\<close>

lemma handler_called_with_remaining_arguments:
  assumes "at params 0 = db" and "isSequelize E w db = Inr True"
    and "params = pre @ t # post"
    and "\<forall>p\<in>set pre. isTransaction E w p = Inr False"
    and "isTransaction E w t = Inr True"
  shows "transactionalMethod E handler errorHandler params w =
     (case invoke_function E handler (db # t # filter (\<lambda>p. p \<noteq> db \<and> p \<noteq> t) params) w of
        (Inr res, w1) \<Rightarrow> (Inr res, w1, [Call handler (db # t # filter (\<lambda>p. p \<noteq> db \<and> p \<noteq> t) params)])
      | (Inl e, w1) \<Rightarrow>
          (case catch_block E errorHandler db t t e w1 of
             (r, w2, tr2) \<Rightarrow> (r, w2, Call handler (db # t # filter (\<lambda>p. p \<noteq> db \<and> p \<noteq> t) params) # tr2)))"
proof -
  have first: "isSequelize E w (at params 0) = Inr True" using assms(1,2) by simp
  have found: "find_js (isTransaction E w) params = Inr t"
    using assms(3,4,5) by (simp add: find_js_first)
  note unfold = valid_call [OF first found]
  have "truthy t" using assms(5) by (rule isTransaction_truthy)
  then show ?thesis
    using assms(1)
    by (simp add: unfold working_transaction_def try_block_def split: prod.splits sum.splits)
qed

text \<open>
  C7 says that a first argument which is not a database handle makes the call fail with
  the Error that describes that argument. The search for the database handle
  (\<^verbatim>\<open>params.find(isSequelize)\<close>) runs before the argument check, and
  \<open>isSequelize\<close> reads \<^verbatim>\<open>v.constructor.name\<close> of every object it meets: on
  an object whose \<open>constructor\<close> is null or undefined that read throws a TypeError.
  So when the elements before some \<open>x\<close> are no Sequelize instances and the test throws
  \<open>e\<close> on \<open>x\<close>, the call rejects with \<open>e\<close>, not with the Error of the argument
  check; no call has been made. In the example the arguments are the number 7 and a data
  object whose constructor is null.
\<close>

theorem database_search_throws:
  assumes "params = pre @ x # post"
    and "\<forall>p\<in>set pre. isSequelize E w p = Inr False"
    and "isSequelize E w x = Inl e"
  shows "transactionalMethod E handler errorHandler params w = (Inl (Thrown e), w, [])"
proof -
  have "find_js (isSequelize E w) params = Inl e"
    using assms by (simp add: find_js_throws)
  then show ?thesis by (simp add: transactionalMethod_def)
qed

theorem database_search_throws_witness:
  "isSequelize (example_env all_ok) [] (at [Num 7, null_constructor_data] 0) = Inr False \<and>
   transactionalMethod (example_env all_ok) the_handler Undefined
     [Num 7, null_constructor_data] [] = (Inl (Thrown a_TypeError), [], [])"
proof -
  let ?E = "example_env all_ok"
  have a: "[Num 7, null_constructor_data] = [Num 7] @ null_constructor_data # []" by simp
  have b: "\<forall>p\<in>set [Num 7]. isSequelize ?E [] p = Inr False" by (simp add: example_simps)
  have c: "isSequelize ?E [] null_constructor_data = Inl a_TypeError"
    by (simp add: example_simps)
  show ?thesis
    using database_search_throws [OF a b c, of the_handler Undefined]
    by (simp add: example_simps)
qed

text \<open>
  C6 says that a transaction is recognised at any position of the argument list and that
  the handler is called with the remaining arguments. The search for the transaction
  (\<^verbatim>\<open>params.find(isTransaction)\<close>) applies \<open>isTransaction\<close> to every element
  before the transaction, and that test throws a TypeError on an object whose
  \<open>constructor\<close> is null or undefined, as \<open>isSequelize\<close> does. So when the first
  argument is the database handle, the elements before some \<open>x\<close> are no transactions
  and the test throws \<open>e\<close> on \<open>x\<close>, the call rejects with \<open>e\<close> whatever follows
  \<open>x\<close>: the handler is not called. In the example the arguments are the database
  handle, a data object whose constructor is null, and a transaction.
\<close>

theorem transaction_search_throws:
  assumes "at params 0 = db" and "isSequelize E w db = Inr True"
    and "params = pre @ x # post"
    and "\<forall>p\<in>set pre. isTransaction E w p = Inr False"
    and "isTransaction E w x = Inl e"
  shows "transactionalMethod E handler errorHandler params w = (Inl (Thrown e), w, [])"
proof -
  have "isSequelize E w (at params 0) = Inr True" using assms(1,2) by simp
  then have "find_js (isSequelize E w) params = Inr (at params 0)" by (rule first_is_db)
  moreover have "find_js (isTransaction E w) params = Inl e"
    using assms(3,4,5) by (simp add: find_js_throws)
  ultimately show ?thesis by (simp add: transactionalMethod_def)
qed

theorem transaction_search_throws_witness:
  "isTransaction (example_env all_ok) [] given_tx = Inr True \<and>
   transactionalMethod (example_env all_ok) the_handler Undefined
     [the_db, null_constructor_data, given_tx] [] = (Inl (Thrown a_TypeError), [], [])"
proof -
  let ?E = "example_env all_ok"
  let ?ps = "[the_db, null_constructor_data, given_tx]"
  have a: "at ?ps 0 = the_db" by (simp add: at_def)
  have b: "isSequelize ?E [] the_db = Inr True" by (simp add: example_simps)
  have c: "?ps = [the_db] @ null_constructor_data # [given_tx]" by simp
  have d: "\<forall>p\<in>set [the_db]. isTransaction ?E [] p = Inr False" by (simp add: example_simps)
  have e: "isTransaction ?E [] null_constructor_data = Inl a_TypeError"
    by (simp add: example_simps)
  show ?thesis
    using transaction_search_throws [OF a b c d e, of the_handler Undefined]
    by (simp add: example_simps)
qed

section \<open>The generator\<close>





end
